theory Spec2Isabelle
  imports Main "HOL-Library.Word"
begin

section \<open>Strings\<close>

text \<open>
  The control API is TypeScript. Its strings are modelled as \<^typ>\<open>string\<close>, one
  \<^typ>\<open>char\<close> per code unit (so code units range over 0..255). The functions below
  are the methods of \<^verbatim>\<open>String.prototype\<close> that the services call.
\<close>

text \<open>\<^verbatim>\<open>s.startsWith(p)\<close>\<close>

fun str_startsWith :: "string \<Rightarrow> string \<Rightarrow> bool" where
  "str_startsWith s [] = True"
| "str_startsWith [] (p # ps) = False"
| "str_startsWith (c # s) (p # ps) = (c = p \<and> str_startsWith s ps)"

text \<open>\<^verbatim>\<open>s.includes(p)\<close>: \<open>p\<close> occurs in \<open>s\<close> at some position.\<close>

fun str_includes :: "string \<Rightarrow> string \<Rightarrow> bool" where
  "str_includes [] p = (p = [])"
| "str_includes (c # s) p = (str_startsWith (c # s) p \<or> str_includes s p)"

text \<open>
  \<^verbatim>\<open>s.split(sep)\<close> for a separator string: the occurrences of \<open>sep\<close> are found from
  left to right without overlap; an empty separator splits into code units.
  \<open>split_from sep acc s\<close> scans \<open>s\<close> with the current piece \<open>acc\<close> held in reverse.
\<close>

function split_from :: "string \<Rightarrow> string \<Rightarrow> string \<Rightarrow> string list" where
  "split_from sep acc [] = [rev acc]"
| "split_from sep acc (c # s) =
     (if sep \<noteq> [] \<and> str_startsWith (c # s) sep
      then rev acc # split_from sep [] (drop (length sep - 1) s)
      else split_from sep (c # acc) s)"
  by pat_completeness auto
termination
  by (relation "measure (\<lambda>(sep, acc, s). length s)") auto

definition str_split :: "string \<Rightarrow> string \<Rightarrow> string list" where
  "str_split s sep = (if sep = [] then map (\<lambda>c. [c]) s else split_from sep [] s)"




text \<open>A thrown \<^verbatim>\<open>Error\<close> carries its message.\<close>

datatype error = Error string

fun message :: "error \<Rightarrow> string" where
  "message (Error m) = m"

section \<open>SecurityService\<close>






section \<open>Bytes and hexadecimal\<close>

type_synonym byte = "8 word"

text \<open>\<^verbatim>\<open>buf.toString('hex')\<close>: two lower-case digits per byte.\<close>

definition hex_digit :: "nat \<Rightarrow> char" where
  "hex_digit n = ''0123456789abcdef'' ! (n mod 16)"

definition to_hex :: "byte list \<Rightarrow> string" where
  "to_hex bs = concat (map (\<lambda>b. [hex_digit (unat b div 16), hex_digit (unat b mod 16)]) bs)"

text \<open>
  \<^verbatim>\<open>Buffer.from(s, 'hex')\<close>: pairs of hexadecimal digits, upper or lower case; decoding
  stops at the first pair that is not hexadecimal, and a trailing single digit is dropped.
\<close>

definition hex_value :: "char \<Rightarrow> nat option" where
  "hex_value c =
     (let n = of_char c :: nat
      in if 48 \<le> n \<and> n \<le> 57 then Some (n - 48)
         else if 97 \<le> n \<and> n \<le> 102 then Some (n - 87)
         else if 65 \<le> n \<and> n \<le> 70 then Some (n - 55)
         else None)"

fun from_hex :: "string \<Rightarrow> byte list" where
  "from_hex (a # b # s) =
     (case (hex_value a, hex_value b) of
        (Some x, Some y) \<Rightarrow> word_of_nat (16 * x + y) # from_hex s
      | _ \<Rightarrow> [])"
| "from_hex _ = []"

text \<open>Decimal rendering of a number inside a template string.\<close>

fun show_nat :: "nat \<Rightarrow> string" where
  "show_nat n = (if n < 10 then [hex_digit n] else show_nat (n div 10) @ [hex_digit (n mod 10)])"

section \<open>The outside world of one request\<close>

text \<open>
  What a \<^verbatim>\<open>fetch\<close> gives back: it throws (network error, with its message), or there
  is a response with a status code and a body text. \<^verbatim>\<open>res.ok\<close> is a 2xx status.
\<close>

datatype fetch_result = NetworkError string | Response nat string

definition res_ok :: "nat \<Rightarrow> bool" where
  "res_ok st = (200 \<le> st \<and> st \<le> 299)"

text \<open>
  The Deploy Engine's answer to \<^verbatim>\<open>POST /ports/check\<close>: the call or the reading of its
  JSON body throws, the status is not 2xx, or the body says whether the port is available.
\<close>

datatype port_reply = PortCheckThrows | PortCheckNotOk | PortCheckOk bool

text \<open>
  The Build Worker's answer to one attempt of \<^verbatim>\<open>POST /build\<close>: the request is aborted
  by the timeout, it throws with a message, or there is a response with status and status text.
\<close>

datatype trigger_reply = TriggerAbort | TriggerThrows string | TriggerResponse nat string

type_synonym uuid = nat
type_synonym timestamp = nat

text \<open>
  The environment holds the process environment variables, the clock, the answers of the
  other services and the library functions of \<^verbatim>\<open>crypto\<close> that the code calls:
  \<^item> \<open>gcm_encrypt key iv plaintext\<close> is \<^verbatim>\<open>createCipheriv('aes-256-gcm', key, iv)\<close>
    with \<^verbatim>\<open>update\<close>, \<^verbatim>\<open>final\<close> and \<^verbatim>\<open>getAuthTag\<close>: the ciphertext and the tag, or
    the error it throws (no key, or a key or nonce of a wrong length);
  \<^item> \<open>gcm_decrypt key iv tag ciphertext\<close> is \<^verbatim>\<open>createDecipheriv\<close> with
    \<^verbatim>\<open>setAuthTag\<close>, \<^verbatim>\<open>update\<close> and \<^verbatim>\<open>final\<close>: the plaintext, or \<open>None\<close> where it
    throws (wrong lengths, or the tag does not verify);
  \<^item> \<open>utf8_encode\<close> and \<open>utf8_decode\<close> are the \<^verbatim>\<open>'utf8'\<close> encoding of strings;
  \<^item> \<open>hmac_sha256_hex secret payload\<close> is
    \<^verbatim>\<open>createHmac('sha256', secret).update(payload).digest('hex')\<close>;
  \<^item> \<open>randomBytes12 k\<close> is the result of the \<open>k\<close>-th call of \<^verbatim>\<open>randomBytes(12)\<close>.
\<close>

record environment =
  now :: timestamp
  ENCRYPTION_KEY :: "string option"
  GITHUB_WEBHOOK_SECRET :: "string option"
  NODE_ENV :: "string option"
  BASE_DOMAIN :: "string option"
  ports_check :: "int \<Rightarrow> port_reply"
  activate_reply :: fetch_result
  stop_reply :: fetch_result
  cleanup_reply :: fetch_result
  build_trigger :: "uuid \<Rightarrow> nat \<Rightarrow> trigger_reply"
  randomBytes12 :: "nat \<Rightarrow> byte list"
  gcm_encrypt :: "string option \<Rightarrow> byte list \<Rightarrow> byte list \<Rightarrow> error + (byte list \<times> byte list)"
  gcm_decrypt :: "string option \<Rightarrow> byte list \<Rightarrow> byte list \<Rightarrow> byte list \<Rightarrow> byte list option"
  utf8_encode :: "string \<Rightarrow> byte list"
  utf8_decode :: "byte list \<Rightarrow> string"
  hmac_sha256_hex :: "string \<Rightarrow> string \<Rightarrow> string"

section \<open>The database\<close>

text \<open>
  One record per table of \<^verbatim>\<open>db/schema\<close>, a table is the list of its rows. Identifiers
  (\<^verbatim>\<open>uuid().defaultRandom()\<close>) are natural numbers drawn from a counter, timestamps are
  natural numbers, a nullable column is an option. Statements are modelled on the rows
  their \<^verbatim>\<open>where\<close> clause selects; unique and foreign-key violations and lost
  connections are not modelled.
\<close>

record project =
  p_id :: uuid
  p_name :: string
  p_github_url :: string
  p_root_directory :: "string option"
  p_build_command :: string
  p_app_type :: string
  p_domain :: "string option"
  p_port :: "int option"
  p_github_repo_id :: "string option"
  p_github_repo_full_name :: "string option"
  p_github_branch :: "string option"
  p_github_installation_id :: "string option"
  p_auto_deploy :: bool
  p_created_at :: timestamp
  p_updated_at :: timestamp

record build =
  b_id :: uuid
  b_project_id :: uuid
  b_status :: string
  b_commit_sha :: "string option"
  b_commit_message :: "string option"
  b_logs :: "string option"
  b_artifact_id :: "string option"
  b_created_at :: timestamp
  b_completed_at :: "timestamp option"

record deployment =
  d_id :: uuid
  d_project_id :: uuid
  d_build_id :: uuid
  d_status :: string
  d_activated_at :: timestamp

record environment_variable =
  e_id :: uuid
  e_project_id :: uuid
  e_key :: string
  e_value :: string
  e_created_at :: timestamp
  e_updated_at :: timestamp

record build_log =
  l_id :: uuid
  l_build_id :: uuid
  l_level :: string
  l_message :: string
  l_timestamp :: timestamp

record github_installation =
  i_id :: uuid
  i_github_installation_id :: string
  i_account_login :: string
  i_account_id :: string
  i_account_type :: string
  i_created_at :: timestamp

record db =
  projects :: "project list"
  builds :: "build list"
  deployments :: "deployment list"
  environmentVariables :: "environment_variable list"
  buildLogs :: "build_log list"
  githubInstallations :: "github_installation list"
  next_uuid :: uuid


text \<open>
  A statement changes the database. \<^verbatim>\<open>db.transaction\<close> runs its statements and commits
  once, while a statement awaited on \<^verbatim>\<open>db\<close> itself is committed on its own. The
  services that write several rows return the states they commit, in order; \<open>final\<close> is
  the state after them.
\<close>

type_synonym statement = "db \<Rightarrow> db"

definition transaction :: "statement list \<Rightarrow> db \<Rightarrow> db list" where
  "transaction stmts s = [fold (\<lambda>stmt. stmt) stmts s]"

definition final :: "db \<Rightarrow> db list \<Rightarrow> db" where
  "final s commits = last (s # commits)"

section \<open>EnvService\<close>

text \<open>\<open>k\<close> says which call of \<^verbatim>\<open>randomBytes\<close> this is.\<close>

definition encrypt :: "environment \<Rightarrow> nat \<Rightarrow> string \<Rightarrow> error + string" where
  "encrypt env k text =
     (let iv = randomBytes12 env k
      in case gcm_encrypt env (ENCRYPTION_KEY env) iv (utf8_encode env text) of
           Inl e \<Rightarrow> Inl e
         | Inr (encrypted, authTag) \<Rightarrow>
             Inr (to_hex iv @ '':'' @ to_hex authTag @ '':'' @ to_hex encrypted))"

text \<open>
  In \<^verbatim>\<open>decrypt\<close> everything inside the \<^verbatim>\<open>try\<close> that throws gives the stored text back:
  the decipher, and \<^verbatim>\<open>decipher.update(encryptedHex, 'hex', 'utf8')\<close>, which refuses a
  hexadecimal string of odd length.
\<close>

definition decrypt :: "environment \<Rightarrow> string \<Rightarrow> string" where
  "decrypt env text =
     (if \<not> str_includes text '':'' then text
      else case str_split text '':'' of
             ivHex # authTagHex # encryptedHex # _ \<Rightarrow>
               if ivHex = [] \<or> authTagHex = [] then text
               else if odd (length encryptedHex) then text
               else (case gcm_decrypt env (ENCRYPTION_KEY env) (from_hex ivHex)
                            (from_hex authTagHex) (from_hex encryptedHex) of
                       None \<Rightarrow> text
                     | Some decrypted \<Rightarrow> utf8_decode env decrypted)
           | _ \<Rightarrow> text)"

definition EnvService_getAll :: "environment \<Rightarrow> db \<Rightarrow> uuid \<Rightarrow> environment_variable list" where
  "EnvService_getAll env s projectId =
     map (\<lambda>v. v\<lparr>e_value := decrypt env (e_value v)\<rparr>)
       (filter (\<lambda>v. e_project_id v = projectId) (environmentVariables s))"

definition getAsRecord :: "environment \<Rightarrow> db \<Rightarrow> uuid \<Rightarrow> (string \<rightharpoonup> string)" where
  "getAsRecord env s projectId =
     fold (\<lambda>v acc. acc(e_key v \<mapsto> e_value v)) (EnvService_getAll env s projectId) Map.empty"

section \<open>ProjectService\<close>

definition getAll :: "db \<Rightarrow> project list" where
  "getAll s = projects s"

definition getById :: "db \<Rightarrow> uuid \<Rightarrow> project option" where
  "getById s ident = find (\<lambda>p. p_id p = ident) (projects s)"

















text \<open>
  \<^verbatim>\<open>delete\<close>: the Deploy Engine is asked to clean up first, and whatever it answers
  (or throws) is only logged. Then four \<^verbatim>\<open>db.delete\<close> statements follow, each awaited
  on \<^verbatim>\<open>db\<close>. The rows of \<^verbatim>\<open>build_logs\<close> reference their build with
  \<^verbatim>\<open>onDelete: 'cascade'\<close>, so they go with the builds.
\<close>

definition delete_environmentVariables :: "uuid \<Rightarrow> statement" where
  "delete_environmentVariables ident s =
     s\<lparr>environmentVariables := filter (\<lambda>v. e_project_id v \<noteq> ident) (environmentVariables s)\<rparr>"

definition delete_deployments :: "uuid \<Rightarrow> statement" where
  "delete_deployments ident s =
     s\<lparr>deployments := filter (\<lambda>d. d_project_id d \<noteq> ident) (deployments s)\<rparr>"

definition delete_builds :: "uuid \<Rightarrow> statement" where
  "delete_builds ident s =
     (let gone = map b_id (filter (\<lambda>b. b_project_id b = ident) (builds s))
      in s\<lparr>builds := filter (\<lambda>b. b_project_id b \<noteq> ident) (builds s),
           buildLogs := filter (\<lambda>l. l_build_id l \<notin> set gone) (buildLogs s)\<rparr>)"

definition delete_project :: "uuid \<Rightarrow> statement" where
  "delete_project ident s = s\<lparr>projects := filter (\<lambda>p. p_id p \<noteq> ident) (projects s)\<rparr>"

definition ProjectService_delete ::
  "environment \<Rightarrow> db \<Rightarrow> uuid \<Rightarrow> (error + project option) \<times> db list" where
  "ProjectService_delete env s ident =
     (case getById s ident of
        None \<Rightarrow> (Inr None, [])
      | Some project \<Rightarrow>
          (let s1 = delete_environmentVariables ident s;
               s2 = delete_deployments ident s1;
               s3 = delete_builds ident s2;
               deletedProject = filter (\<lambda>p. p_id p = ident) (projects s3);
               s4 = delete_project ident s3
           in if length deletedProject = 0
              then (Inl (Error ''Failed to delete project from database''), [s1, s2, s3, s4])
              else (case getById s4 ident of
                      Some verifyProject \<Rightarrow>
                        (Inl (Error ''Failed to delete project from database''), [s1, s2, s3, s4])
                    | None \<Rightarrow> (Inr (Some project), [s1, s2, s3, s4]))))"

section \<open>DeploymentService\<close>

text \<open>
  The two statements inside the transaction of \<^verbatim>\<open>activateBuild\<close>: every active
  deployment of the project becomes inactive, then a new active row is inserted.
\<close>

definition deactivate_active :: "uuid \<Rightarrow> statement" where
  "deactivate_active projectId tx =
     tx\<lparr>deployments :=
          map (\<lambda>d. if d_project_id d = projectId \<and> d_status d = ''active''
                    then d\<lparr>d_status := ''inactive''\<rparr> else d) (deployments tx)\<rparr>"

definition insert_active :: "timestamp \<Rightarrow> uuid \<Rightarrow> uuid \<Rightarrow> statement" where
  "insert_active t projectId buildId tx =
     tx\<lparr>deployments := deployments tx @
            [\<lparr>d_id = next_uuid tx, d_project_id = projectId, d_build_id = buildId,
              d_status = ''active'', d_activated_at = t\<rparr>],
        next_uuid := Suc (next_uuid tx)\<rparr>"

text \<open>\<^verbatim>\<open>!project.port\<close>: the port is null or zero.\<close>

definition no_port :: "int option \<Rightarrow> bool" where
  "no_port p = (case p of None \<Rightarrow> True | Some n \<Rightarrow> n = 0)"

text \<open>
  \<^verbatim>\<open>activateBuild\<close>. The body of the request to the Deploy Engine (project, build,
  port, app type, subdomain, decrypted environment variables) is read from the database
  and writes nothing; the engine's answer is \<open>activate_reply\<close>.
\<close>

definition activateBuild ::
  "environment \<Rightarrow> db \<Rightarrow> uuid \<Rightarrow> uuid \<Rightarrow> (error + bool) \<times> db list" where
  "activateBuild env s projectId buildId =
     (case find (\<lambda>p. p_id p = projectId) (projects s) of
        None \<Rightarrow> (Inl (Error ''Project not found''), [])
      | Some project \<Rightarrow>
          if no_port (p_port project) then (Inl (Error ''Project has no assigned port''), [])
          else (case activate_reply env of
                  NetworkError m \<Rightarrow> (Inl (Error m), [])
                | Response st err \<Rightarrow>
                    if \<not> res_ok st
                    then (Inl (Error (''Deploy Engine activation failed: '' @ err)), [])
                    else (Inr True,
                          transaction [deactivate_active projectId,
                                       insert_active (now env) projectId buildId] s)))"



section \<open>BuildService\<close>

record trigger_result =
  success :: bool
  error_text :: "string option"

text \<open>
  \<^verbatim>\<open>triggerBuildWithRetry\<close>: the \<^verbatim>\<open>for\<close> loop over the attempts 1 to
  \<^verbatim>\<open>maxRetries\<close>; \<open>left\<close> counts the attempts still to make.
\<close>

definition maxRetries :: nat where
  "maxRetries = 3"

fun retry_loop :: "(nat \<Rightarrow> trigger_reply) \<Rightarrow> nat \<Rightarrow> nat \<Rightarrow> string \<Rightarrow> trigger_result" where
  "retry_loop reply 0 attempt lastError = \<lparr>success = False, error_text = Some lastError\<rparr>"
| "retry_loop reply (Suc left) attempt lastError =
     (case reply attempt of
        TriggerResponse st statusText \<Rightarrow>
          if res_ok st then \<lparr>success = True, error_text = None\<rparr>
          else if 400 \<le> st \<and> st < 500
          then \<lparr>success = False, error_text = Some (''Client error: '' @ show_nat st)\<rparr>
          else retry_loop reply left (Suc attempt) (''HTTP '' @ show_nat st @ '': '' @ statusText)
      | TriggerAbort \<Rightarrow> retry_loop reply left (Suc attempt) ''Request timeout''
      | TriggerThrows m \<Rightarrow>
          retry_loop reply left (Suc attempt) (if m = [] then ''Unknown error'' else m))"

definition triggerBuildWithRetry :: "environment \<Rightarrow> uuid \<Rightarrow> trigger_result" where
  "triggerBuildWithRetry env buildId = retry_loop (build_trigger env buildId) maxRetries 1 []"

text \<open>
  \<^verbatim>\<open>BuildService.create\<close>: the row is inserted, and a pending build of an existing
  project is sent to the Build Worker; when that fails the build is marked failed.
\<close>

definition BuildService_create ::
  "environment \<Rightarrow> db \<Rightarrow> uuid \<Rightarrow> string \<Rightarrow> string option \<Rightarrow> string option \<Rightarrow> build \<times> db" where
  "BuildService_create env s project_id st commit_sha commit_message =
     (let build = \<lparr>b_id = next_uuid s, b_project_id = project_id, b_status = st,
                   b_commit_sha = commit_sha, b_commit_message = commit_message,
                   b_logs = None, b_artifact_id = None, b_created_at = now env,
                   b_completed_at = None\<rparr>;
          s1 = s\<lparr>builds := builds s @ [build], next_uuid := Suc (next_uuid s)\<rparr>
      in if st = ''pending''
         then (case getById s1 project_id of
                 None \<Rightarrow> (build, s1)
               | Some project \<Rightarrow>
                   (let result = triggerBuildWithRetry env (b_id build)
                    in if \<not> success result
                       then (build,
                             s1\<lparr>builds :=
                                  map (\<lambda>b. if b_id b = b_id build
                                            then b\<lparr>b_status := ''failed'',
                                                   b_logs := Some (''Build trigger failed: '' @
                                                     (case error_text result of
                                                        None \<Rightarrow> ''undefined'' | Some e \<Rightarrow> e)),
                                                   b_completed_at := Some (now env)\<rparr>
                                            else b) (builds s1)\<rparr>)
                       else (build, s1)))
         else (build, s1))"


text \<open>A string argument that is given and not empty.\<close>

definition truthy :: "string option \<Rightarrow> bool" where
  "truthy x = (case x of None \<Rightarrow> False | Some v \<Rightarrow> v \<noteq> [])"

text \<open>
  The row that \<^verbatim>\<open>updateStatus\<close> writes in place of a build: the status, the logs
  and the artifact when given, and \<^verbatim>\<open>completed_at\<close> for a terminal status only.
\<close>

definition status_update :: "environment \<Rightarrow> string \<Rightarrow> string option \<Rightarrow> string option \<Rightarrow> build \<Rightarrow> build" where
  "status_update env st logs artifactId b =
     b\<lparr>b_status := st,
       b_logs := (if truthy logs then logs else b_logs b),
       b_artifact_id := (if truthy artifactId then artifactId else b_artifact_id b),
       b_completed_at := (if st = ''success'' \<or> st = ''failed'' then Some (now env) else None)\<rparr>"

text \<open>
  \<^verbatim>\<open>updateStatus\<close>: one \<^verbatim>\<open>update ... returning\<close> on the build, then, for the status
  \<^verbatim>\<open>success\<close> and a row that was updated, \<^verbatim>\<open>activateBuild\<close> inside a
  \<^verbatim>\<open>try\<close> whose \<^verbatim>\<open>catch\<close> writes to the console only.
\<close>

definition updateStatus ::
  "environment \<Rightarrow> db \<Rightarrow> uuid \<Rightarrow> string \<Rightarrow> string option \<Rightarrow> string option \<Rightarrow> build option \<times> db" where
  "updateStatus env s ident st logs artifactId =
     (let s1 = s\<lparr>builds := map (\<lambda>b. if b_id b = ident
                                     then status_update env st logs artifactId b else b)
                              (builds s)\<rparr>
      in case find (\<lambda>b. b_id b = ident) (builds s1) of
           None \<Rightarrow> (None, s1)
         | Some updated \<Rightarrow>
             if st = ''success''
             then (case activateBuild env s1 (b_project_id updated) ident of
                     (Inl e, commits) \<Rightarrow> (Some updated, final s1 commits)
                   | (Inr ok, commits) \<Rightarrow> (Some updated, final s1 commits))
             else (Some updated, s1))"

text \<open>
  The repository holds a second version of \<^verbatim>\<open>BuildService\<close>, which queues its builds.
  Its \<^verbatim>\<open>updateStatus\<close> makes the same update and then writes to the build's log through
  \<^verbatim>\<open>LogService.persist\<close>: a line before the activation, and a line after it whose
  level is \<^verbatim>\<open>error\<close> when the activation threw. The messages begin with a pictograph
  in the source, which is left out here.
\<close>

definition persist :: "environment \<Rightarrow> db \<Rightarrow> uuid \<Rightarrow> string \<Rightarrow> string \<Rightarrow> db" where
  "persist env s buildId msg level =
     s\<lparr>buildLogs := buildLogs s @
          [\<lparr>l_id = next_uuid s, l_build_id = buildId, l_level = level, l_message = msg,
            l_timestamp = now env\<rparr>],
       next_uuid := Suc (next_uuid s)\<rparr>"

definition updateStatus_queued ::
  "environment \<Rightarrow> db \<Rightarrow> uuid \<Rightarrow> string \<Rightarrow> string option \<Rightarrow> string option \<Rightarrow> build option \<times> db" where
  "updateStatus_queued env s ident st logs artifactId =
     (let s1 = s\<lparr>builds := map (\<lambda>b. if b_id b = ident
                                     then status_update env st logs artifactId b else b)
                              (builds s)\<rparr>
      in case find (\<lambda>b. b_id b = ident) (builds s1) of
           None \<Rightarrow> (None, s1)
         | Some updated \<Rightarrow>
             if st = ''success''
             then (let s2 = persist env s1 ident
                              (''Starting deployment activation...'' @ [CHR 0x0A]) ''deploy''
                   in case activateBuild env s2 (b_project_id updated) ident of
                        (Inr ok, commits) \<Rightarrow>
                          (Some updated,
                           persist env (final s2 commits) ident
                             (''Deployment activated successfully!'' @ [CHR 0x0A]) ''deploy'')
                      | (Inl e, commits) \<Rightarrow>
                          (let errorMsg = (if message e = [] then ''Unknown error'' else message e)
                           in (Some updated,
                               persist env (final s2 commits) ident
                                 (''Auto-deployment activation failed: '' @ errorMsg @ [CHR 0x0A] @
                                  ''Please try activating manually.'' @ [CHR 0x0A]) ''error'')))
             else (Some updated, s1))"

section \<open>Responses\<close>

text \<open>
  What a handler returns is serialised to JSON; an object is the list of its keys with
  their values. Identifiers and timestamps appear as numbers.
\<close>

datatype json =
  JNull | JBool bool | JNum int | JStr string | JArr "json list" | JObj "(string \<times> json) list"

record response =
  r_status :: nat
  r_body :: json

definition nullable :: "string option \<Rightarrow> json" where
  "nullable x = (case x of None \<Rightarrow> JNull | Some v \<Rightarrow> JStr v)"

text \<open>A row of \<^verbatim>\<open>projects\<close> as \<^verbatim>\<open>db.select().from(projects)\<close> returns it: every column.\<close>

definition project_json :: "project \<Rightarrow> json" where
  "project_json p =
     JObj [(''id'', JNum (int (p_id p))),
           (''name'', JStr (p_name p)),
           (''github_url'', JStr (p_github_url p)),
           (''root_directory'', nullable (p_root_directory p)),
           (''build_command'', JStr (p_build_command p)),
           (''app_type'', JStr (p_app_type p)),
           (''domain'', nullable (p_domain p)),
           (''port'', (case p_port p of None \<Rightarrow> JNull | Some n \<Rightarrow> JNum n)),
           (''github_repo_id'', nullable (p_github_repo_id p)),
           (''github_repo_full_name'', nullable (p_github_repo_full_name p)),
           (''github_branch'', nullable (p_github_branch p)),
           (''github_installation_id'', nullable (p_github_installation_id p)),
           (''auto_deploy'', JBool (p_auto_deploy p)),
           (''created_at'', JNum (int (p_created_at p))),
           (''updated_at'', JNum (int (p_updated_at p)))]"

definition build_json :: "build \<Rightarrow> json" where
  "build_json b =
     JObj [(''id'', JNum (int (b_id b))),
           (''project_id'', JNum (int (b_project_id b))),
           (''status'', JStr (b_status b)),
           (''commit_sha'', nullable (b_commit_sha b)),
           (''commit_message'', nullable (b_commit_message b)),
           (''logs'', nullable (b_logs b)),
           (''artifact_id'', nullable (b_artifact_id b)),
           (''created_at'', JNum (int (b_created_at b))),
           (''completed_at'',
              (case b_completed_at b of None \<Rightarrow> JNull | Some t \<Rightarrow> JNum (int t)))]"

text \<open>The keys of an object, and \<^verbatim>\<open>const { port, ...safeProject } = project\<close>.\<close>

fun keys :: "json \<Rightarrow> string list" where
  "keys (JObj kvs) = map fst kvs"
| "keys _ = []"

fun without :: "string \<Rightarrow> json \<Rightarrow> json" where
  "without k (JObj kvs) = JObj (filter (\<lambda>(k', v). k' \<noteq> k) kvs)"
| "without k j = j"

definition error_body :: "string \<Rightarrow> json" where
  "error_body m = JObj [(''error'', JStr m)]"

section \<open>Routes of \<^verbatim>\<open>/projects\<close>\<close>

definition get_projects :: "db \<Rightarrow> response" where
  "get_projects s = \<lparr>r_status = 200, r_body = JArr (map project_json (getAll s))\<rparr>"


definition get_project :: "db \<Rightarrow> uuid \<Rightarrow> response" where
  "get_project s ident =
     (case getById s ident of
        None \<Rightarrow> \<lparr>r_status = 404, r_body = error_body ''Project not found''\<rparr>
      | Some project \<Rightarrow> \<lparr>r_status = 200, r_body = without ''port'' (project_json project)\<rparr>)"


text \<open>The route of \<^verbatim>\<open>DELETE /projects/:id\<close> has no \<^verbatim>\<open>try\<close>: a throw is a 500.\<close>

definition delete_project_route :: "environment \<Rightarrow> db \<Rightarrow> uuid \<Rightarrow> response \<times> db" where
  "delete_project_route env s ident =
     (case ProjectService_delete env s ident of
        (Inl e, commits) \<Rightarrow> (\<lparr>r_status = 500, r_body = error_body (message e)\<rparr>, final s commits)
      | (Inr None, commits) \<Rightarrow> (\<lparr>r_status = 200, r_body = JNull\<rparr>, final s commits)
      | (Inr (Some project), commits) \<Rightarrow>
          (\<lparr>r_status = 200, r_body = project_json project\<rparr>, final s commits))"

section \<open>Internal route \<^verbatim>\<open>PUT /builds/:id\<close>\<close>

text \<open>The body's \<^verbatim>\<open>status\<close> is passed on as it is (\<^verbatim>\<open>status as any\<close>).\<close>

definition put_build :: "environment \<Rightarrow> db \<Rightarrow> uuid \<Rightarrow> string \<Rightarrow> response \<times> db" where
  "put_build env s ident st =
     (case updateStatus env s ident st None None of
        (None, s') \<Rightarrow> (\<lparr>r_status = 200, r_body = JNull\<rparr>, s')
      | (Some updated, s') \<Rightarrow> (\<lparr>r_status = 200, r_body = build_json updated\<rparr>, s'))"

section \<open>GitHubService and the webhook\<close>

text \<open>\<^verbatim>\<open>verifyWebhookSignature\<close> throws without a secret and compares with \<^verbatim>\<open>===\<close>.\<close>

definition verifyWebhookSignature :: "environment \<Rightarrow> string \<Rightarrow> string \<Rightarrow> error + bool" where
  "verifyWebhookSignature env payload signature =
     (if \<not> truthy (GITHUB_WEBHOOK_SECRET env) then Inl (Error ''Missing GITHUB_WEBHOOK_SECRET'')
      else (let expectedSignature =
                  ''sha256='' @ hmac_sha256_hex env (the (GITHUB_WEBHOOK_SECRET env)) payload
            in Inr (expectedSignature = signature)))"

text \<open>
  The request as the handler reads it: two headers and the raw body. The parsed payload is
  seen through the fields the handler reads, an absent field being \<open>None\<close>; the
  numeric ids are given as \<^verbatim>\<open>toString()\<close> renders them.
\<close>

record request =
  x_hub_signature_256 :: "string option"
  x_github_event :: "string option"
  rawBody :: string

record account_info =
  acc_login :: string
  acc_id :: string
  acc_type :: string

record installation_info =
  inst_id :: "string option"
  inst_account :: "account_info option"

record repository_info =
  repo_id :: "string option"
  repo_full_name :: "string option"

record payload =
  pl_action :: "string option"
  pl_installation :: "installation_info option"
  pl_ref :: "string option"
  pl_repository :: "repository_info option"
  pl_after :: "string option"
  pl_head_commit_message :: "string option"

text \<open>\<^verbatim>\<open>s.replace(pat, rep)\<close> with a string pattern: the first occurrence only.\<close>

fun str_replace :: "string \<Rightarrow> string \<Rightarrow> string \<Rightarrow> string" where
  "str_replace [] pat rep = (if pat = [] then rep else [])"
| "str_replace (c # s) pat rep =
     (if str_startsWith (c # s) pat then rep @ drop (length pat) (c # s)
      else c # str_replace s pat rep)"

definition internal_error :: response where
  "internal_error = \<lparr>r_status = 500, r_body = error_body ''Internal processing error''\<rparr>"

text \<open>The \<^verbatim>\<open>installation\<close> events; reading a field of an absent object throws.\<close>

definition installation_event :: "environment \<Rightarrow> db \<Rightarrow> payload \<Rightarrow> response \<times> db" where
  "installation_event env s pl =
     (let done = \<lparr>r_status = 200,
                  r_body = JObj ([(''processed'', JBool True), (''event'', JStr ''installation'')] @
                                 (case pl_action pl of
                                    None \<Rightarrow> [] | Some a \<Rightarrow> [(''action'', JStr a)]))\<rparr>
      in if pl_action pl = Some ''created''
         then (case pl_installation pl of
                 None \<Rightarrow> (internal_error, s)
               | Some installation \<Rightarrow>
                   (case (inst_id installation, inst_account installation) of
                      (Some ident, Some account) \<Rightarrow>
                        (done,
                         if list_ex (\<lambda>i. i_github_installation_id i = ident) (githubInstallations s)
                         then s\<lparr>githubInstallations :=
                                   map (\<lambda>i. if i_github_installation_id i = ident
                                             then i\<lparr>i_account_login := acc_login account\<rparr> else i)
                                     (githubInstallations s)\<rparr>
                         else s\<lparr>githubInstallations := githubInstallations s @
                                   [\<lparr>i_id = next_uuid s, i_github_installation_id = ident,
                                     i_account_login = acc_login account,
                                     i_account_id = acc_id account,
                                     i_account_type = acc_type account,
                                     i_created_at = now env\<rparr>],
                                 next_uuid := Suc (next_uuid s)\<rparr>)
                    | _ \<Rightarrow> (internal_error, s)))
         else if pl_action pl = Some ''deleted''
         then (case pl_installation pl of
                 None \<Rightarrow> (internal_error, s)
               | Some installation \<Rightarrow>
                   (case inst_id installation of
                      None \<Rightarrow> (internal_error, s)
                    | Some ident \<Rightarrow>
                        (done,
                         s\<lparr>githubInstallations :=
                              filter (\<lambda>i. i_github_installation_id i \<noteq> ident)
                                (githubInstallations s),
                            projects :=
                              map (\<lambda>p. if p_github_installation_id p = Some ident
                                        then p\<lparr>p_github_installation_id := None\<rparr> else p)
                                (projects s)\<rparr>)))
         else (done, s))"

text \<open>
  The loop of the \<^verbatim>\<open>push\<close> event over the connected projects, with the counters
  \<^verbatim>\<open>buildsTriggered\<close> and \<^verbatim>\<open>buildsSkipped\<close>.
\<close>

fun push_loop ::
  "environment \<Rightarrow> string option \<Rightarrow> string option \<Rightarrow> project list \<Rightarrow> db \<times> nat \<times> nat
     \<Rightarrow> db \<times> nat \<times> nat" where
  "push_loop env commitSha commitMessage [] acc = acc"
| "push_loop env commitSha commitMessage (project # rest) (s, buildsTriggered, buildsSkipped) =
     (if \<not> p_auto_deploy project
      then push_loop env commitSha commitMessage rest (s, buildsTriggered, Suc buildsSkipped)
      else if truthy commitSha \<and>
              list_ex (\<lambda>b. b_project_id b = p_id project \<and> b_commit_sha b = commitSha) (builds s)
      then push_loop env commitSha commitMessage rest (s, buildsTriggered, Suc buildsSkipped)
      else push_loop env commitSha commitMessage rest
             (snd (BuildService_create env s (p_id project) ''pending'' commitSha commitMessage),
              Suc buildsTriggered, buildsSkipped))"

definition connectedProjects :: "db \<Rightarrow> string \<Rightarrow> string \<Rightarrow> project list" where
  "connectedProjects s repoId branch =
     filter (\<lambda>p. p_github_repo_id p = Some repoId \<and> p_github_branch p = Some branch) (projects s)"

definition push_event :: "environment \<Rightarrow> db \<Rightarrow> payload \<Rightarrow> response \<times> db" where
  "push_event env s pl =
     (case (pl_ref pl, pl_repository pl) of
        (Some ref, Some repo) \<Rightarrow>
          (let branch = str_replace ref ''refs/heads/'' [];
               installationId = (case pl_installation pl of
                                   None \<Rightarrow> None | Some i \<Rightarrow> inst_id i);
               commitSha = pl_after pl;
               commitMessage = (case pl_head_commit_message pl of
                                  None \<Rightarrow> None
                                | Some m \<Rightarrow> if take 255 m = [] then None else Some (take 255 m))
           in if \<not> truthy installationId
              then (\<lparr>r_status = 200,
                     r_body = JObj [(''processed'', JBool False),
                                    (''reason'', JStr ''No installation ID'')]\<rparr>, s)
              else (case repo_id repo of
                      None \<Rightarrow> (internal_error, s)
                    | Some repoId \<Rightarrow>
                        (let connected = connectedProjects s repoId branch
                         in if length connected = 0
                            then (\<lparr>r_status = 200,
                                   r_body = JObj [(''processed'', JBool True),
                                                  (''builds_triggered'', JNum 0)]\<rparr>, s)
                            else (case push_loop env commitSha commitMessage connected (s, 0, 0) of
                                    (s', buildsTriggered, buildsSkipped) \<Rightarrow>
                                      (\<lparr>r_status = 200,
                                        r_body = JObj [(''processed'', JBool True),
                                                       (''builds_triggered'', JNum (int buildsTriggered)),
                                                       (''builds_skipped'', JNum (int buildsSkipped))]\<rparr>,
                                       s')))))
      | _ \<Rightarrow> (internal_error, s))"

definition process_event :: "environment \<Rightarrow> db \<Rightarrow> string option \<Rightarrow> payload \<Rightarrow> response \<times> db" where
  "process_event env s event pl =
     (if event = Some ''installation'' then installation_event env s pl
      else if event = Some ''push'' then push_event env s pl
      else (\<lparr>r_status = 200,
             r_body = JObj ([(''processed'', JBool True)] @
                            (case event of None \<Rightarrow> [(''event'', JNull)] | Some e \<Rightarrow> [(''event'', JStr e)]) @
                            [(''ignored'', JBool True)])\<rparr>, s))"

text \<open>
  The handler of \<^verbatim>\<open>POST /github/webhook\<close>. \<open>parse\<close> is \<^verbatim>\<open>JSON.parse\<close> followed by the
  view of the payload above; \<open>None\<close> where it throws.
\<close>

definition githubWebhook ::
  "environment \<Rightarrow> (string \<Rightarrow> payload option) \<Rightarrow> db \<Rightarrow> request \<Rightarrow> response \<times> db" where
  "githubWebhook env parse s req =
     (if \<not> truthy (x_hub_signature_256 req)
      then (\<lparr>r_status = 401, r_body = error_body ''Missing signature''\<rparr>, s)
      else (case verifyWebhookSignature env (rawBody req) (the (x_hub_signature_256 req)) of
              Inl e \<Rightarrow> (\<lparr>r_status = 500, r_body = error_body ''Signature verification failed''\<rparr>, s)
            | Inr verified \<Rightarrow>
                if \<not> verified
                then (\<lparr>r_status = 401, r_body = error_body ''Invalid signature''\<rparr>, s)
                else (case parse (rawBody req) of
                        None \<Rightarrow> (\<lparr>r_status = 400, r_body = error_body ''Invalid JSON payload''\<rparr>, s)
                      | Some pl \<Rightarrow> process_event env s (x_github_event req) pl)))"

section \<open>Committed states\<close>



section \<open>Builds by project and commit\<close>

text \<open>
  The pairs of project and commit of the rows of \<^verbatim>\<open>builds\<close>, in the order of insertion:
  what the idempotency check of the webhook looks at.
\<close>

definition build_keys :: "db \<Rightarrow> (uuid \<times> string option) list" where
  "build_keys s = map (\<lambda>b. (b_project_id b, b_commit_sha b)) (builds s)"

section \<open>The allow-list as the specification words it\<close>


section \<open>Sample data\<close>

text \<open>
  A small environment and database on which the theorems below are instantiated. The
  sample cipher adds one to every byte and uses the length as its tag; the sample MAC is
  the hexadecimal form of secret and payload.
\<close>

definition sample_key_ok :: "string option \<Rightarrow> bool" where
  "sample_key_ok key = (case key of None \<Rightarrow> False | Some k \<Rightarrow> length k = 32)"

definition sample_tag :: "byte list \<Rightarrow> byte list" where
  "sample_tag ct = replicate 16 (word_of_nat (length ct))"

definition sample_gcm_encrypt ::
  "string option \<Rightarrow> byte list \<Rightarrow> byte list \<Rightarrow> error + (byte list \<times> byte list)" where
  "sample_gcm_encrypt key iv pt =
     (if sample_key_ok key \<and> length iv = 12
      then Inr (map (\<lambda>b. b + 1) pt, sample_tag pt) else Inl (Error ''Invalid key length''))"

definition sample_gcm_decrypt ::
  "string option \<Rightarrow> byte list \<Rightarrow> byte list \<Rightarrow> byte list \<Rightarrow> byte list option" where
  "sample_gcm_decrypt key iv tag ct =
     (if sample_key_ok key \<and> length iv = 12 \<and> tag = sample_tag ct
      then Some (map (\<lambda>b. b - 1) ct) else None)"

definition sample_env :: environment where
  "sample_env =
     \<lparr>now = 100,
      ENCRYPTION_KEY = Some ''0123456789abcdef0123456789abcdef'',
      GITHUB_WEBHOOK_SECRET = Some ''s3cret'',
      NODE_ENV = None,
      BASE_DOMAIN = None,
      ports_check = (\<lambda>p. PortCheckOk True),
      activate_reply = Response 200 ''ok'',
      stop_reply = Response 200 ''ok'',
      cleanup_reply = Response 200 ''ok'',
      build_trigger = (\<lambda>b attempt. TriggerResponse 200 ''OK''),
      randomBytes12 = (\<lambda>k. replicate 12 (word_of_nat k)),
      gcm_encrypt = sample_gcm_encrypt,
      gcm_decrypt = sample_gcm_decrypt,
      utf8_encode = map of_char,
      utf8_decode = map (\<lambda>b. char_of (unat b)),
      hmac_sha256_hex = (\<lambda>secret pl. to_hex (map of_char (secret @ pl)))\<rparr>"

definition sample_project :: project where
  "sample_project =
     \<lparr>p_id = 0, p_name = ''hello'', p_github_url = ''https://github.com/o/hello'',
      p_root_directory = Some ''./'', p_build_command = ''npm run build'',
      p_app_type = ''vite'', p_domain = None, p_port = Some 8000,
      p_github_repo_id = Some ''42'', p_github_repo_full_name = Some ''o/hello'',
      p_github_branch = Some ''main'', p_github_installation_id = Some ''7'',
      p_auto_deploy = True, p_created_at = 1, p_updated_at = 1\<rparr>"

definition sample_build :: build where
  "sample_build =
     \<lparr>b_id = 1, b_project_id = 0, b_status = ''success'', b_commit_sha = Some ''c0'',
      b_commit_message = Some ''x'', b_logs = None, b_artifact_id = None,
      b_created_at = 2, b_completed_at = Some 3\<rparr>"

definition sample_variable :: environment_variable where
  "sample_variable =
     \<lparr>e_id = 2, e_project_id = 0, e_key = ''API_KEY'', e_value = ''plain'',
      e_created_at = 2, e_updated_at = 2\<rparr>"

definition sample_db :: db where
  "sample_db =
     \<lparr>projects = [sample_project], builds = [sample_build], deployments = [],
      environmentVariables = [sample_variable], buildLogs = [], githubInstallations = [],
      next_uuid = 3\<rparr>"



definition sample_deployment :: deployment where
  "sample_deployment =
     \<lparr>d_id = 3, d_project_id = 0, d_build_id = 1, d_status = ''active'', d_activated_at = 4\<rparr>"

text \<open>The sample project with build 1 deployed and active, and a newer build 5.\<close>

definition deployed_db :: db where
  "deployed_db =
     sample_db\<lparr>builds := [sample_build, sample_build\<lparr>b_id := 5, b_commit_sha := Some ''c1''\<rparr>],
               deployments := [sample_deployment], next_uuid := 6\<rparr>"

text \<open>The sample project with its build 1 still building.\<close>

definition building_db :: db where
  "building_db =
     sample_db\<lparr>builds := [sample_build\<lparr>b_status := ''building'', b_completed_at := None\<rparr>]\<rparr>"

text \<open>An environment whose Deploy Engine refuses to activate.\<close>

definition failing_env :: environment where
  "failing_env = sample_env\<lparr>activate_reply := Response 500 ''boom''\<rparr>"

text \<open>A signed push for the sample project, and the parser that reads it.\<close>

definition sample_push :: payload where
  "sample_push =
     \<lparr>pl_action = None,
      pl_installation = Some \<lparr>inst_id = Some ''7'', inst_account = None\<rparr>,
      pl_ref = Some ''refs/heads/main'',
      pl_repository = Some \<lparr>repo_id = Some ''42'', repo_full_name = Some ''o/hello''\<rparr>,
      pl_after = Some ''c1'',
      pl_head_commit_message = Some ''x''\<rparr>"

definition sample_parse :: "string \<Rightarrow> payload option" where
  "sample_parse body = (if body = ''{push}'' then Some sample_push else None)"

definition sample_request :: request where
  "sample_request =
     \<lparr>x_hub_signature_256 = Some (''sha256='' @ hmac_sha256_hex sample_env ''s3cret'' ''{push}''),
      x_github_event = Some ''push'',
      rawBody = ''{push}''\<rparr>"



section \<open>Build-command validation\<close>












section \<open>Status updates and activation\<close>

lemma activateBuild_fails:
  assumes "activate_reply env = NetworkError m \<or> (activate_reply env = Response st err \<and> \<not> res_ok st)"
  shows "(\<exists>e. fst (activateBuild env s projectId buildId) = Inl e) \<and>
         snd (activateBuild env s projectId buildId) = []"
  using assms by (auto simp: activateBuild_def split: option.splits)

lemma final_nil [simp]: "final s [] = s"
  by (simp add: final_def)

lemma final_single [simp]: "final s [s'] = s'"
  by (simp add: final_def)

lemma activateBuild_commits:
  "snd (activateBuild env s projectId buildId) = [] \<or>
   snd (activateBuild env s projectId buildId) =
     [insert_active (now env) projectId buildId (deactivate_active projectId s)]"
  by (auto simp: activateBuild_def transaction_def split: option.splits fetch_result.splits)


lemma buildLogs_after_activateBuild:
  "buildLogs (final s (snd (activateBuild env s projectId buildId))) = buildLogs s"
  using activateBuild_commits [of env s projectId buildId]
  by (auto simp: insert_active_def deactivate_active_def)









text \<open>
  Claim C6 at a failing input: build 1 is building, the Deploy Engine answers 500 to the
  activation, and \<^verbatim>\<open>PUT /builds/1\<close> reports \<^verbatim>\<open>success\<close>. The status stays
  \<^verbatim>\<open>success\<close>, as claimed, but no row is written to \<^verbatim>\<open>build_logs\<close>: the
  \<^verbatim>\<open>catch\<close> of this \<^verbatim>\<open>updateStatus\<close> only calls \<^verbatim>\<open>console.error\<close>. The
  queueing version of \<^verbatim>\<open>updateStatus\<close> writes the entry of level \<^verbatim>\<open>error\<close> on the
  same input.
\<close>

theorem activation_failure_only_on_console:
  "map b_status (builds building_db) = [''building''] \<and>
   fst (activateBuild failing_env building_db 0 1) =
     Inl (Error ''Deploy Engine activation failed: boom'') \<and>
   map b_status (builds (snd (put_build failing_env building_db 1 ''success''))) = [''success''] \<and>
   buildLogs (snd (put_build failing_env building_db 1 ''success'')) = [] \<and>
   map (\<lambda>l. (l_build_id l, l_level l))
     (buildLogs (snd (updateStatus_queued failing_env building_db 1 ''success'' None None))) =
     [(1, ''deploy''), (1, ''error'')]"
  by code_simp

text \<open>
  Claim C10. When the call to the Deploy Engine throws or its response is not ok,
  \<^verbatim>\<open>activateBuild\<close> throws and commits nothing, so the table of deployments is as before.
\<close>

theorem activation_failure_writes_nothing:
  assumes "activate_reply env = NetworkError m \<or>
           (activate_reply env = Response st err \<and> \<not> res_ok st)"
  shows "(\<exists>e. fst (activateBuild env s projectId buildId) = Inl e) \<and>
         snd (activateBuild env s projectId buildId) = [] \<and>
         deployments (final s (snd (activateBuild env s projectId buildId))) = deployments s"
  using activateBuild_fails [OF assms, of s projectId buildId] by simp

text \<open>
  The theorem at a refused activation of build 5 while build 1 is deployed: the deployment
  of build 1 is still the only row and still active.
\<close>

theorem activation_failure_writes_nothing_witness:
  "activate_reply failing_env = Response 500 ''boom'' \<and> \<not> res_ok 500 \<and>
   snd (activateBuild failing_env deployed_db 0 5) = [] \<and>
   deployments (final deployed_db (snd (activateBuild failing_env deployed_db 0 5))) =
     [sample_deployment] \<and>
   d_status sample_deployment = ''active''"
proof -
  have r: "activate_reply failing_env = Response 500 ''boom'' \<and> \<not> res_ok 500"
    by (simp add: failing_env_def sample_env_def res_ok_def)
  then have h: "activate_reply failing_env = NetworkError [] \<or>
           (activate_reply failing_env = Response 500 ''boom'' \<and> \<not> res_ok 500)"
    by blast
  have d: "deployments deployed_db = [sample_deployment]"
    by (simp add: deployed_db_def)
  show ?thesis
    using r d activation_failure_writes_nothing [OF h, of deployed_db 0 5]
    by (simp add: sample_deployment_def)
qed

text \<open>
  Claim C9 at a failing input: \<^verbatim>\<open>GET /projects\<close> on the sample database returns the
  row with every column, the port among them, while \<^verbatim>\<open>GET /projects/:id\<close> strips the
  port from the same row.
\<close>

theorem project_list_includes_port:
  "r_body (get_projects sample_db) = JArr [project_json sample_project] \<and>
   ''port'' \<in> set (keys (project_json sample_project)) \<and>
   ''port'' \<notin> set (keys (r_body (get_project sample_db 0)))"
  by code_simp

section \<open>At most one active deployment\<close>






















section \<open>Project deletion\<close>










section \<open>Idempotent push webhook\<close>

lemma existing_build_iff:
  "list_ex (\<lambda>b. b_project_id b = P \<and> b_commit_sha b = sha) (builds s) \<longleftrightarrow>
     (P, sha) \<in> set (build_keys s)"
  by (auto simp: build_keys_def list_ex_iff)

lemma create_build_keys:
  "build_keys (snd (BuildService_create env s P st sha msg)) = build_keys s @ [(P, sha)]"
  by (simp add: BuildService_create_def Let_def build_keys_def comp_def
           split: option.splits
           cong: map_cong)

lemma create_projects:
  "projects (snd (BuildService_create env s P st sha msg)) = projects s"
  by (simp add: BuildService_create_def Let_def split: option.splits)

lemma push_loop_added:
  "\<exists>added.
     build_keys (fst (push_loop env sha msg ps (s, t, k))) = build_keys s @ added \<and>
     projects (fst (push_loop env sha msg ps (s, t, k))) = projects s \<and>
     (\<forall>key \<in> set added.
        snd key = sha \<and> (\<exists>p \<in> set ps. p_id p = fst key \<and> p_auto_deploy p) \<and>
        (truthy sha \<longrightarrow> key \<notin> set (build_keys s))) \<and>
     (truthy sha \<longrightarrow>
        (\<forall>p \<in> set ps. p_auto_deploy p \<longrightarrow> (p_id p, sha) \<in> set (build_keys s @ added)))"
proof (induction ps arbitrary: s t k)
  case Nil
  show ?case by simp
next
  case (Cons p ps)
  show ?case
  proof (cases "\<not> p_auto_deploy p \<or> (truthy sha \<and> (p_id p, sha) \<in> set (build_keys s))")
    case True
    then have step: "push_loop env sha msg (p # ps) (s, t, k) =
                     push_loop env sha msg ps (s, t, Suc k)"
      by (auto simp: existing_build_iff)
    from Cons.IH [of s t "Suc k"] obtain added where
      a: "build_keys (fst (push_loop env sha msg ps (s, t, Suc k))) = build_keys s @ added"
      and b: "projects (fst (push_loop env sha msg ps (s, t, Suc k))) = projects s"
      and c: "\<forall>key \<in> set added.
        snd key = sha \<and> (\<exists>p \<in> set ps. p_id p = fst key \<and> p_auto_deploy p) \<and>
        (truthy sha \<longrightarrow> key \<notin> set (build_keys s))"
      and d: "truthy sha \<longrightarrow>
        (\<forall>p \<in> set ps. p_auto_deploy p \<longrightarrow> (p_id p, sha) \<in> set (build_keys s @ added))"
      by blast
    show ?thesis
      unfolding step using a b c d True by (intro exI [of _ added]) auto
  next
    case False
    let ?s1 = "snd (BuildService_create env s (p_id p) ''pending'' sha msg)"
    from False have step: "push_loop env sha msg (p # ps) (s, t, k) =
                     push_loop env sha msg ps (?s1, Suc t, k)"
      by (auto simp: existing_build_iff)
    have k1: "build_keys ?s1 = build_keys s @ [(p_id p, sha)]"
      by (rule create_build_keys)
    from Cons.IH [of ?s1 "Suc t" k] obtain added where
      a: "build_keys (fst (push_loop env sha msg ps (?s1, Suc t, k))) = build_keys ?s1 @ added"
      and b: "projects (fst (push_loop env sha msg ps (?s1, Suc t, k))) = projects ?s1"
      and c: "\<forall>key \<in> set added.
        snd key = sha \<and> (\<exists>p \<in> set ps. p_id p = fst key \<and> p_auto_deploy p) \<and>
        (truthy sha \<longrightarrow> key \<notin> set (build_keys ?s1))"
      and d: "truthy sha \<longrightarrow>
        (\<forall>p \<in> set ps. p_auto_deploy p \<longrightarrow> (p_id p, sha) \<in> set (build_keys ?s1 @ added))"
      by blast
    show ?thesis
      unfolding step using a b c d False k1 create_projects [of env s "p_id p" "''pending''" sha msg]
      by (intro exI [of _ "(p_id p, sha) # added"]) auto
  qed
qed

lemma push_loop_nothing:
  assumes "truthy sha"
    and "\<forall>p \<in> set ps. p_auto_deploy p \<longrightarrow> (p_id p, sha) \<in> set (build_keys s)"
  shows "fst (push_loop env sha msg ps (s, t, k)) = s"
  using assms by (induction ps arbitrary: t k) (auto simp: existing_build_iff)


lemma snd_case_triple: "snd (case p of (s', a, b) \<Rightarrow> (f a b, s')) = fst p"
  by (cases p) auto

lemma push_loop_Nil_state: "fst (push_loop env sha msg [] (s, t, k)) = s"
  by simp

lemma push_event_shape:
  "(\<forall>env s. snd (push_event env s pl) = s) \<or>
   (\<exists>ref repo repoId msg.
      pl_ref pl = Some ref \<and> pl_repository pl = Some repo \<and> repo_id repo = Some repoId \<and>
      (\<forall>env s. snd (push_event env s pl) =
         fst (push_loop env (pl_after pl) msg
                (connectedProjects s repoId (str_replace ref ''refs/heads/'' [])) (s, 0, 0))))"
proof (cases "pl_ref pl")
  case None
  then show ?thesis by (simp add: push_event_def)
next
  case ref: (Some ref)
  show ?thesis
  proof (cases "pl_repository pl")
    case None
    then show ?thesis using ref by (simp add: push_event_def)
  next
    case repo: (Some repo)
    show ?thesis
    proof (cases "truthy (case pl_installation pl of None \<Rightarrow> None | Some i \<Rightarrow> inst_id i)")
      case False
      then show ?thesis using ref repo by (simp add: push_event_def Let_def)
    next
      case inst: True
      show ?thesis
      proof (cases "repo_id repo")
        case None
        then show ?thesis using ref repo inst by (simp add: push_event_def Let_def)
      next
        case (Some repoId)
        let ?msg = "case pl_head_commit_message pl of
                      None \<Rightarrow> None
                    | Some m \<Rightarrow> if take 255 m = [] then None else Some (take 255 m)"
        have "snd (push_event env s pl) =
                fst (push_loop env (pl_after pl) ?msg
                      (connectedProjects s repoId (str_replace ref ''refs/heads/'' [])) (s, 0, 0))"
          for env s
        proof (cases "connectedProjects s repoId (str_replace ref ''refs/heads/'' []) = []")
          case True
          then show ?thesis
            using ref repo inst Some by (simp add: push_event_def Let_def)
        next
          case False
          then show ?thesis
            using ref repo inst Some
            by (simp add: push_event_def Let_def snd_case_triple)
        qed
        then show ?thesis using ref repo Some by blast
      qed
    qed
  qed
qed

lemma push_event_added:
  "\<exists>added.
     build_keys (snd (push_event env s pl)) = build_keys s @ added \<and>
     (\<forall>key \<in> set added.
        snd key = pl_after pl \<and>
        (\<exists>p \<in> set (projects s). \<exists>repo ref.
            p_id p = fst key \<and> p_auto_deploy p \<and>
            pl_repository pl = Some repo \<and> pl_ref pl = Some ref \<and>
            p_github_repo_id p = repo_id repo \<and>
            p_github_branch p = Some (str_replace ref ''refs/heads/'' [])) \<and>
        (truthy (pl_after pl) \<longrightarrow> key \<notin> set (build_keys s)))"
proof -
  from push_event_shape [of pl] show ?thesis
  proof
    assume "\<forall>env s. snd (push_event env s pl) = s"
    then show ?thesis by (intro exI [of _ "[]"]) simp
  next
    assume "\<exists>ref repo repoId msg.
      pl_ref pl = Some ref \<and> pl_repository pl = Some repo \<and> repo_id repo = Some repoId \<and>
      (\<forall>env s. snd (push_event env s pl) =
         fst (push_loop env (pl_after pl) msg
                (connectedProjects s repoId (str_replace ref ''refs/heads/'' [])) (s, 0, 0)))"
    then obtain ref repo repoId msg where
      ref: "pl_ref pl = Some ref" and repo: "pl_repository pl = Some repo"
      and rid: "repo_id repo = Some repoId"
      and run: "snd (push_event env s pl) =
         fst (push_loop env (pl_after pl) msg
                (connectedProjects s repoId (str_replace ref ''refs/heads/'' [])) (s, 0, 0))"
      by blast
    let ?ps = "connectedProjects s repoId (str_replace ref ''refs/heads/'' [])"
    from push_loop_added [of env "pl_after pl" msg ?ps s 0 0] obtain added where
      a: "build_keys (fst (push_loop env (pl_after pl) msg ?ps (s, 0, 0))) = build_keys s @ added"
      and c: "\<forall>key \<in> set added.
        snd key = pl_after pl \<and> (\<exists>p \<in> set ?ps. p_id p = fst key \<and> p_auto_deploy p) \<and>
        (truthy (pl_after pl) \<longrightarrow> key \<notin> set (build_keys s))"
      by blast
    have "p \<in> set ?ps \<Longrightarrow> p \<in> set (projects s) \<and> p_github_repo_id p = repo_id repo \<and>
            p_github_branch p = Some (str_replace ref ''refs/heads/'' [])" for p
      by (simp add: connectedProjects_def rid)
    with c ref repo have "\<forall>key \<in> set added.
        snd key = pl_after pl \<and>
        (\<exists>p \<in> set (projects s). \<exists>repo ref.
            p_id p = fst key \<and> p_auto_deploy p \<and>
            pl_repository pl = Some repo \<and> pl_ref pl = Some ref \<and>
            p_github_repo_id p = repo_id repo \<and>
            p_github_branch p = Some (str_replace ref ''refs/heads/'' [])) \<and>
        (truthy (pl_after pl) \<longrightarrow> key \<notin> set (build_keys s))"
      by blast
    with a run show ?thesis by (intro exI [of _ added]) simp
  qed
qed

lemma push_event_replay:
  assumes "truthy (pl_after pl)"
  shows "snd (push_event env' (snd (push_event env s pl)) pl) = snd (push_event env s pl)"
proof -
  from push_event_shape [of pl] show ?thesis
  proof
    assume "\<forall>env s. snd (push_event env s pl) = s"
    then show ?thesis by simp
  next
    assume "\<exists>ref repo repoId msg.
      pl_ref pl = Some ref \<and> pl_repository pl = Some repo \<and> repo_id repo = Some repoId \<and>
      (\<forall>env s. snd (push_event env s pl) =
         fst (push_loop env (pl_after pl) msg
                (connectedProjects s repoId (str_replace ref ''refs/heads/'' [])) (s, 0, 0)))"
    then obtain repoId branch msg where
      run: "\<And>env s. snd (push_event env s pl) =
         fst (push_loop env (pl_after pl) msg (connectedProjects s repoId branch) (s, 0, 0))"
      by blast
    let ?ps = "connectedProjects s repoId branch"
    let ?s1 = "fst (push_loop env (pl_after pl) msg ?ps (s, 0, 0))"
    from push_loop_added [of env "pl_after pl" msg ?ps s 0 0] assms obtain added where
      a: "build_keys ?s1 = build_keys s @ added"
      and b: "projects ?s1 = projects s"
      and d: "\<forall>p \<in> set ?ps. p_auto_deploy p \<longrightarrow> (p_id p, pl_after pl) \<in> set (build_keys s @ added)"
      by blast
    have same: "connectedProjects ?s1 repoId branch = ?ps"
      using b by (simp add: connectedProjects_def)
    have "fst (push_loop env' (pl_after pl) msg ?ps (?s1, 0, 0)) = ?s1"
      by (rule push_loop_nothing [OF assms]) (use a d in simp)
    then show ?thesis
      unfolding run same by simp
  qed
qed

lemma webhook_push_state:
  assumes "x_github_event req = Some ''push''" and "parse (rawBody req) = Some pl"
  shows "snd (githubWebhook env parse s req) = s \<or>
         snd (githubWebhook env parse s req) = snd (push_event env s pl)"
  using assms by (auto simp: githubWebhook_def process_event_def split: sum.splits)

lemma webhook_push_signed:
  assumes "x_github_event req = Some ''push''" and "parse (rawBody req) = Some pl"
    and "x_hub_signature_256 req = Some signature" and "signature \<noteq> []"
    and "verifyWebhookSignature env (rawBody req) signature = Inr True"
  shows "snd (githubWebhook env parse s req) = snd (push_event env s pl)"
  using assms by (simp add: githubWebhook_def process_event_def truthy_def)


text \<open>
  Claim C3. The handler, given a push event, only appends builds. Every build it appends
  carries the commit of the payload and belongs to a project with \<^verbatim>\<open>auto_deploy\<close> whose
  repository and branch are those of the push, and, the payload having a commit, no build
  with that project and commit existed before. Hence a signed push that has a commit and
  is delivered a second time leaves the database as the first delivery left it, whatever
  the clock and the Build Worker do the second time.
\<close>

theorem push_webhook_idempotent:
  assumes "x_github_event req = Some ''push''" and "parse (rawBody req) = Some pl"
  shows "(\<exists>added.
            build_keys (snd (githubWebhook env parse s req)) = build_keys s @ added \<and>
            (\<forall>key \<in> set added.
               snd key = pl_after pl \<and>
               (\<exists>p \<in> set (projects s). \<exists>repo ref.
                   p_id p = fst key \<and> p_auto_deploy p \<and>
                   pl_repository pl = Some repo \<and> pl_ref pl = Some ref \<and>
                   p_github_repo_id p = repo_id repo \<and>
                   p_github_branch p = Some (str_replace ref ''refs/heads/'' [])) \<and>
               (truthy (pl_after pl) \<longrightarrow> key \<notin> set (build_keys s)))) \<and>
         (truthy (pl_after pl) \<and> x_hub_signature_256 req = Some signature \<and> signature \<noteq> [] \<and>
          verifyWebhookSignature env (rawBody req) signature = Inr True \<longrightarrow>
            snd (githubWebhook env' parse (snd (githubWebhook env parse s req)) req) =
              snd (githubWebhook env parse s req))"
proof (intro conjI impI)
  from webhook_push_state [where parse = parse and env = env and s = s, OF assms]
  show "\<exists>added.
            build_keys (snd (githubWebhook env parse s req)) = build_keys s @ added \<and>
            (\<forall>key \<in> set added.
               snd key = pl_after pl \<and>
               (\<exists>p \<in> set (projects s). \<exists>repo ref.
                   p_id p = fst key \<and> p_auto_deploy p \<and>
                   pl_repository pl = Some repo \<and> pl_ref pl = Some ref \<and>
                   p_github_repo_id p = repo_id repo \<and>
                   p_github_branch p = Some (str_replace ref ''refs/heads/'' [])) \<and>
               (truthy (pl_after pl) \<longrightarrow> key \<notin> set (build_keys s)))"
  proof
    assume "snd (githubWebhook env parse s req) = s"
    then show ?thesis by (intro exI [of _ "[]"]) simp
  next
    assume "snd (githubWebhook env parse s req) = snd (push_event env s pl)"
    then show ?thesis using push_event_added [of env s pl] by simp
  qed
next
  assume h: "truthy (pl_after pl) \<and> x_hub_signature_256 req = Some signature \<and> signature \<noteq> [] \<and>
          verifyWebhookSignature env (rawBody req) signature = Inr True"
  then have first: "snd (githubWebhook env parse s req) = snd (push_event env s pl)"
    using webhook_push_signed [where parse = parse, OF assms] by blast
  from webhook_push_state [where parse = parse and env = env' and s = "snd (push_event env s pl)",
      OF assms]
  have "snd (githubWebhook env' parse (snd (push_event env s pl)) req) = snd (push_event env s pl)"
    using push_event_replay [of pl env' env s] h by auto
  then show "snd (githubWebhook env' parse (snd (githubWebhook env parse s req)) req) =
              snd (githubWebhook env parse s req)"
    unfolding first .
qed

text \<open>
  The theorem at the sample push: the first delivery adds a build for commit \<^verbatim>\<open>c1\<close>,
  the second adds nothing.
\<close>

theorem push_webhook_idempotent_witness:
  "x_github_event sample_request = Some ''push'' \<and>
   sample_parse (rawBody sample_request) = Some sample_push \<and>
   truthy (pl_after sample_push) \<and>
   build_keys sample_db = [(0, Some ''c0'')] \<and>
   build_keys (snd (githubWebhook sample_env sample_parse sample_db sample_request)) =
     [(0, Some ''c0''), (0, Some ''c1'')] \<and>
   snd (githubWebhook sample_env sample_parse
          (snd (githubWebhook sample_env sample_parse sample_db sample_request)) sample_request) =
     snd (githubWebhook sample_env sample_parse sample_db sample_request)"
proof -
  have e: "x_github_event sample_request = Some ''push''"
    by (simp add: sample_request_def)
  have p: "sample_parse (rawBody sample_request) = Some sample_push"
    by (simp add: sample_request_def sample_parse_def)
  have t: "truthy (pl_after sample_push)"
    by (simp add: truthy_def sample_push_def)
  have g: "x_hub_signature_256 sample_request =
             Some (''sha256='' @ hmac_sha256_hex sample_env ''s3cret'' ''{push}'')"
    by (simp add: sample_request_def)
  have v: "verifyWebhookSignature sample_env (rawBody sample_request)
             (''sha256='' @ hmac_sha256_hex sample_env ''s3cret'' ''{push}'') = Inr True"
    by (simp add: verifyWebhookSignature_def sample_request_def sample_env_def truthy_def)
  have k0: "build_keys sample_db = [(0, Some ''c0'')]"
    by code_simp
  have k1: "build_keys (snd (githubWebhook sample_env sample_parse sample_db sample_request)) =
     [(0, Some ''c0''), (0, Some ''c1'')]"
    by code_simp
  from push_webhook_idempotent [where parse = sample_parse and env = sample_env
      and env' = sample_env and s = sample_db
      and signature = "''sha256='' @ hmac_sha256_hex sample_env ''s3cret'' ''{push}''", OF e p] t g v
  have "snd (githubWebhook sample_env sample_parse
          (snd (githubWebhook sample_env sample_parse sample_db sample_request)) sample_request) =
     snd (githubWebhook sample_env sample_parse sample_db sample_request)"
    by simp
  with e p t k0 k1 show ?thesis by simp
qed

section \<open>Webhook signature\<close>









section \<open>Encrypted environment variables\<close>

lemma hex_digits_table:
  "\<forall>m \<in> set [0..<16].
     hex_value (''0123456789abcdef'' ! m) = Some m \<and> ''0123456789abcdef'' ! m \<noteq> CHR '':''"
  by code_simp

lemma hex_digit_props:
  "hex_value (hex_digit n) = Some (n mod 16)" "hex_digit n \<noteq> CHR '':''"
proof -
  have "n mod 16 \<in> set [0..<16]" by simp
  with hex_digits_table
  have "hex_value (''0123456789abcdef'' ! (n mod 16)) = Some (n mod 16) \<and>
        ''0123456789abcdef'' ! (n mod 16) \<noteq> CHR '':''"
    by blast
  then show "hex_value (hex_digit n) = Some (n mod 16)" "hex_digit n \<noteq> CHR '':''"
    by (simp_all add: hex_digit_def)
qed

lemma colon_not_hex_digit: "CHR '':'' \<noteq> hex_digit n"
  using hex_digit_props(2) [of n] by (rule not_sym)

lemma to_hex_Cons:
  "to_hex (b # bs) = hex_digit (unat b div 16) # hex_digit (unat b mod 16) # to_hex bs"
  by (simp add: to_hex_def)

lemma to_hex_no_colon: "CHR '':'' \<notin> set (to_hex bs)"
proof (induction bs)
  case Nil
  show ?case by (simp add: to_hex_def)
next
  case (Cons b bs)
  then show ?case by (simp add: to_hex_Cons colon_not_hex_digit)
qed

lemma to_hex_not_empty: "bs \<noteq> [] \<Longrightarrow> to_hex bs \<noteq> []"
  by (cases bs) (simp_all add: to_hex_Cons)

lemma to_hex_even: "even (length (to_hex bs))"
  by (induction bs) (simp_all add: to_hex_Cons to_hex_def)

lemma byte_of_digits: "word_of_nat (16 * (unat b div 16) + unat b mod 16) = (b :: byte)"
  by simp

lemma from_hex_to_hex: "from_hex (to_hex bs) = bs"
proof (induction bs)
  case Nil
  show ?case by (simp add: to_hex_def)
next
  case (Cons b bs)
  have "unat b < 256" using unsigned_less [of b] by simp
  then have "unat b div 16 mod 16 = unat b div 16" by simp
  then show ?case
    using Cons by (simp add: to_hex_Cons hex_digit_props byte_of_digits)
qed

lemma split_from_piece:
  "c \<notin> set a \<Longrightarrow> split_from [c] acc a = [rev acc @ a]"
  by (induction a arbitrary: acc) auto

lemma split_from_separator:
  "c \<notin> set a \<Longrightarrow>
   split_from [c] acc (a @ c # rest) = (rev acc @ a) # split_from [c] [] rest"
  by (induction a arbitrary: acc) auto

lemma split_three:
  assumes "c \<notin> set x" "c \<notin> set y" "c \<notin> set z"
  shows "str_split (x @ [c] @ y @ [c] @ z) [c] = [x, y, z]"
  using assms
  by (simp add: str_split_def split_from_separator split_from_piece)

lemma includes_separator: "str_includes (x @ c # rest) [c]"
  by (induction x) auto

lemma stored_decrypts:
  assumes "iv \<noteq> []" and "tag \<noteq> []"
    and "gcm_decrypt env (ENCRYPTION_KEY env) iv tag ct = Some pt"
  shows "decrypt env (to_hex iv @ '':'' @ to_hex tag @ '':'' @ to_hex ct) = utf8_decode env pt"
proof -
  have s: "str_split (to_hex iv @ '':'' @ to_hex tag @ '':'' @ to_hex ct) '':'' =
             [to_hex iv, to_hex tag, to_hex ct]"
    by (rule split_three) (rule to_hex_no_colon)+
  have i: "str_includes (to_hex iv @ '':'' @ to_hex tag @ '':'' @ to_hex ct) '':''"
    using includes_separator [of "to_hex iv" "CHR '':''"] by simp
  show ?thesis
    unfolding decrypt_def s
    using i assms to_hex_not_empty by (simp add: from_hex_to_hex to_hex_even)
qed

text \<open>
  Claim C8. Let the \<open>k\<close>-th nonce have 12 bytes, let AES-256-GCM under the configured key
  encrypt the UTF-8 bytes of \<open>v\<close> with a tag of 16 bytes that its decryption verifies, and
  let \<open>v\<close> be well-formed, so that decoding its UTF-8 bytes gives \<open>v\<close> back. Then
  \<^verbatim>\<open>encrypt\<close> returns the string \<^verbatim>\<open>hex(nonce):hex(tag):hex(ciphertext)\<close> and
  \<^verbatim>\<open>decrypt\<close> of that string is \<open>v\<close>. On any stored text, \<^verbatim>\<open>decrypt\<close> returns either the
  text unchanged or the decoded plaintext of a decryption whose tag verified.
\<close>

theorem decrypt_encrypt:
  assumes nonce: "length (randomBytes12 env k) = 12"
    and gcm: "\<exists>ct tag.
        gcm_encrypt env (ENCRYPTION_KEY env) (randomBytes12 env k) (utf8_encode env v) = Inr (ct, tag) \<and>
        length tag = 16 \<and>
        gcm_decrypt env (ENCRYPTION_KEY env) (randomBytes12 env k) tag ct = Some (utf8_encode env v)"
    and utf8: "utf8_decode env (utf8_encode env v) = v"
  shows "(\<exists>ct tag.
            gcm_encrypt env (ENCRYPTION_KEY env) (randomBytes12 env k) (utf8_encode env v) = Inr (ct, tag) \<and>
            encrypt env k v =
              Inr (to_hex (randomBytes12 env k) @ '':'' @ to_hex tag @ '':'' @ to_hex ct) \<and>
            decrypt env (to_hex (randomBytes12 env k) @ '':'' @ to_hex tag @ '':'' @ to_hex ct) = v) \<and>
         (decrypt env text = text \<or>
          (\<exists>ivHex authTagHex encryptedHex rest decrypted.
              str_split text '':'' = ivHex # authTagHex # encryptedHex # rest \<and>
              gcm_decrypt env (ENCRYPTION_KEY env) (from_hex ivHex) (from_hex authTagHex)
                (from_hex encryptedHex) = Some decrypted \<and>
              decrypt env text = utf8_decode env decrypted))"
proof
  from gcm obtain ct tag where
    e: "gcm_encrypt env (ENCRYPTION_KEY env) (randomBytes12 env k) (utf8_encode env v) = Inr (ct, tag)"
    and t: "length tag = 16"
    and d: "gcm_decrypt env (ENCRYPTION_KEY env) (randomBytes12 env k) tag ct = Some (utf8_encode env v)"
    by blast
  from nonce have iv: "randomBytes12 env k \<noteq> []" by auto
  from t have tg: "tag \<noteq> []" by auto
  have enc: "encrypt env k v =
              Inr (to_hex (randomBytes12 env k) @ '':'' @ to_hex tag @ '':'' @ to_hex ct)"
    using e by (simp add: encrypt_def)
  have dec: "decrypt env (to_hex (randomBytes12 env k) @ '':'' @ to_hex tag @ '':'' @ to_hex ct) = v"
    using stored_decrypts [OF iv tg d] utf8 by simp
  from e enc dec
  show "\<exists>ct tag.
            gcm_encrypt env (ENCRYPTION_KEY env) (randomBytes12 env k) (utf8_encode env v) = Inr (ct, tag) \<and>
            encrypt env k v =
              Inr (to_hex (randomBytes12 env k) @ '':'' @ to_hex tag @ '':'' @ to_hex ct) \<and>
            decrypt env (to_hex (randomBytes12 env k) @ '':'' @ to_hex tag @ '':'' @ to_hex ct) = v"
    by blast
next
  show "decrypt env text = text \<or>
          (\<exists>ivHex authTagHex encryptedHex rest decrypted.
              str_split text '':'' = ivHex # authTagHex # encryptedHex # rest \<and>
              gcm_decrypt env (ENCRYPTION_KEY env) (from_hex ivHex) (from_hex authTagHex)
                (from_hex encryptedHex) = Some decrypted \<and>
              decrypt env text = utf8_decode env decrypted)"
    by (auto simp: decrypt_def split: list.splits option.splits)
qed

text \<open>
  The theorem at the sample cipher and the plaintext \<^verbatim>\<open>hi\<close>.
\<close>

theorem decrypt_encrypt_witness:
  "length (randomBytes12 sample_env 0) = 12 \<and>
   encrypt sample_env 0 ''hi'' =
     Inr ''000000000000000000000000:02020202020202020202020202020202:696a'' \<and>
   decrypt sample_env ''000000000000000000000000:02020202020202020202020202020202:696a'' = ''hi''"
proof -
  have n: "length (randomBytes12 sample_env 0) = 12"
    by (simp add: sample_env_def)
  have g: "\<exists>ct tag.
        gcm_encrypt sample_env (ENCRYPTION_KEY sample_env) (randomBytes12 sample_env 0)
          (utf8_encode sample_env ''hi'') = Inr (ct, tag) \<and>
        length tag = 16 \<and>
        gcm_decrypt sample_env (ENCRYPTION_KEY sample_env) (randomBytes12 sample_env 0) tag ct =
          Some (utf8_encode sample_env ''hi'')"
    by (simp add: sample_env_def sample_gcm_encrypt_def sample_gcm_decrypt_def sample_key_ok_def
          sample_tag_def)
  have u: "utf8_decode sample_env (utf8_encode sample_env ''hi'') = ''hi''"
    by code_simp
  have e: "encrypt sample_env 0 ''hi'' =
     Inr ''000000000000000000000000:02020202020202020202020202020202:696a''"
    by code_simp
  from decrypt_encrypt [OF n g u] obtain ct tag where
    "encrypt sample_env 0 ''hi'' =
       Inr (to_hex (randomBytes12 sample_env 0) @ '':'' @ to_hex tag @ '':'' @ to_hex ct)"
    "decrypt sample_env (to_hex (randomBytes12 sample_env 0) @ '':'' @ to_hex tag @ '':'' @ to_hex ct) = ''hi''"
    by blast
  with e have "decrypt sample_env ''000000000000000000000000:02020202020202020202020202020202:696a'' = ''hi''"
    by simp
  with n e show ?thesis by simp
qed

end
